theory Spec2Isabelle
  imports Complex_Main "HOL-Library.AList"
begin

section \<open>The posture backend: consent-gated event log and summary\<close>

text \<open>
  A shallow embedding of \<^verbatim>\<open>backend/app.py\<close>. The SQLite file is the only state the
  program has; it is passed in and returned explicitly. Every function of the source opens
  its own connection, commits when its body ends normally and closes the connection in any
  case, so a call that raises leaves the stored state as it found it: the model returns
  \<open>Inl\<close> of the error and no new state. The clock (\<^verbatim>\<open>int(time.time())\<close>) is the
  parameter \<open>now\<close> of the functions that read it. Requests are taken one at a time.
\<close>

subsection \<open>Stored data\<close>

datatype error =
    OperationalError        \<comment> \<open>sqlite3: no such table\<close>
  | IntegrityError          \<comment> \<open>sqlite3: CHECK constraint failed\<close>
  | ZeroDivisionError       \<comment> \<open>Python: division by zero\<close>
  | RequestValidationError  \<comment> \<open>FastAPI: a parameter does not match its declaration\<close>

text \<open>A row of \<^verbatim>\<open>events(id INTEGER PRIMARY KEY, ts INTEGER NOT NULL, label TEXT NOT NULL)\<close>;
  the column \<^verbatim>\<open>id\<close> is called \<open>rowid\<close> here, which is what SQLite makes of it.\<close>

record event =
  rowid :: int
  ts :: int
  label :: string

text \<open>
  The database file: each table is \<open>None\<close> until \<^verbatim>\<open>CREATE TABLE\<close> has run. The rows of
  \<^verbatim>\<open>events\<close> are kept in insertion order. \<^verbatim>\<open>settings(key TEXT PRIMARY KEY, value TEXT NOT NULL)\<close>
  has at most one row for a key, so it is a map from keys to values. The file is named by
  the environment and \<^verbatim>\<open>CREATE TABLE IF NOT EXISTS\<close> keeps a table that is there, so the type
  does not restrict the labels or the values a stored row may hold.
\<close>

record db =
  events :: "event list option"
  settings :: "(string \<rightharpoonup> string) option"

subsection \<open>The SQL statements\<close>

text \<open>\<^verbatim>\<open>CREATE TABLE IF NOT EXISTS events (...)\<close> and the same for \<^verbatim>\<open>settings\<close>.\<close>

definition create_events_if_not_exists :: "db \<Rightarrow> db" where
  "create_events_if_not_exists d =
     (case events d of None \<Rightarrow> d\<lparr>events := Some []\<rparr> | Some _ \<Rightarrow> d)"

definition create_settings_if_not_exists :: "db \<Rightarrow> db" where
  "create_settings_if_not_exists d =
     (case settings d of None \<Rightarrow> d\<lparr>settings := Some Map.empty\<rparr> | Some _ \<Rightarrow> d)"

text \<open>\<^verbatim>\<open>INSERT OR IGNORE INTO settings(key, value) VALUES('consent','false')\<close>: a row whose
  key is taken is left alone.\<close>

definition insert_or_ignore_consent :: "db \<Rightarrow> error + db" where
  "insert_or_ignore_consent d =
     (case settings d of
        None \<Rightarrow> Inl OperationalError
      | Some m \<Rightarrow>
          (case m ''consent'' of
             None \<Rightarrow> Inr (d\<lparr>settings := Some (m(''consent'' \<mapsto> ''false''))\<rparr>)
           | Some _ \<Rightarrow> Inr d))"

text \<open>\<^verbatim>\<open>SELECT value FROM settings WHERE key='consent'\<close> followed by \<^verbatim>\<open>fetchone()\<close>:
  the value of the row, or \<open>None\<close> when there is no row.\<close>

definition select_consent :: "db \<Rightarrow> error + string option" where
  "select_consent d =
     (case settings d of None \<Rightarrow> Inl OperationalError | Some m \<Rightarrow> Inr (m ''consent''))"

text \<open>\<^verbatim>\<open>INSERT INTO settings(key, value) VALUES('consent', ?) ON CONFLICT(key) DO UPDATE
  SET value=excluded.value\<close>.\<close>

definition upsert_consent :: "string \<Rightarrow> db \<Rightarrow> error + db" where
  "upsert_consent v d =
     (case settings d of
        None \<Rightarrow> Inl OperationalError
      | Some m \<Rightarrow> Inr (d\<lparr>settings := Some (m(''consent'' \<mapsto> v))\<rparr>))"

text \<open>
  \<^verbatim>\<open>INSERT INTO events(ts, label) VALUES(?, ?)\<close>. The table's constraint
  \<^verbatim>\<open>CHECK(label IN ('good','slouched'))\<close> rejects any other label. SQLite gives the new
  row the identifier 1 in an empty table and one more than the largest identifier in use
  otherwise (the identifiers stay far below the 64-bit limit, where SQLite would start to
  probe for a free one).
\<close>

definition next_rowid :: "event list \<Rightarrow> int" where
  "next_rowid evs = (if evs = [] then 1 else Max (set (map rowid evs)) + 1)"

definition insert_event :: "int \<Rightarrow> string \<Rightarrow> db \<Rightarrow> error + db" where
  "insert_event t l d =
     (case events d of
        None \<Rightarrow> Inl OperationalError
      | Some evs \<Rightarrow>
          if l = ''good'' \<or> l = ''slouched''
          then Inr (d\<lparr>events := Some (evs @ [\<lparr>rowid = next_rowid evs, ts = t, label = l\<rparr>])\<rparr>)
          else Inl IntegrityError)"

text \<open>
  \<^verbatim>\<open>SELECT label, COUNT(*) FROM events WHERE ts >= ? GROUP BY label\<close>: one row for each
  label that occurs among the selected events, with the number of its occurrences. SQL
  leaves the order of the groups open; the caller does not depend on it.
\<close>

definition select_label_counts :: "int \<Rightarrow> event list \<Rightarrow> (string \<times> int) list" where
  "select_label_counts since evs =
     (let ls = map label (filter (\<lambda>e. ts e \<ge> since) evs)
      in map (\<lambda>l. (l, int (count_list ls l))) (remdups ls))"

subsection \<open>Python values\<close>

text \<open>A \<^verbatim>\<open>dict\<close> keeps its keys in insertion order and a second value for a key replaces
  the first in place: an association list under \<open>AList.update\<close>.\<close>

definition dict_of_rows :: "('k \<times> 'v) list \<Rightarrow> ('k \<times> 'v) list" where
  "dict_of_rows rows = fold (\<lambda>(k, v). AList.update k v) rows []"

definition dict_values :: "('k \<times> 'v) list \<Rightarrow> 'v list" where
  "dict_values c = map snd c"

definition dict_get :: "('k \<times> 'v) list \<Rightarrow> 'k \<Rightarrow> 'v \<Rightarrow> 'v" where
  "dict_get c k dflt = (case map_of c k of None \<Rightarrow> dflt | Some v \<Rightarrow> v)"

text \<open>
  \<^verbatim>\<open>a / b\<close> on two \<^verbatim>\<open>int\<close>s raises on a zero divisor and is otherwise the float nearest to
  the exact quotient. The model keeps the exact quotient; \<^verbatim>\<open>0.0\<close> is \<open>0\<close>.
\<close>

definition py_truediv :: "int \<Rightarrow> int \<Rightarrow> error + rat" where
  "py_truediv a b = (if b = 0 then Inl ZeroDivisionError else Inr (of_int a / of_int b))"

subsection \<open>The functions of the module\<close>

text \<open>\<^verbatim>\<open>init_db\<close>: both tables are there after the first two statements, so the third
  cannot miss its table.\<close>

definition init_db :: "db \<Rightarrow> error + db" where
  "init_db d =
     insert_or_ignore_consent (create_settings_if_not_exists (create_events_if_not_exists d))"

definition get_consent :: "db \<Rightarrow> error + bool" where
  "get_consent d =
     (case select_consent d of
        Inl e \<Rightarrow> Inl e
      | Inr row \<Rightarrow> Inr (case row of Some v \<Rightarrow> v = ''true'' | None \<Rightarrow> False))"

definition set_consent :: "bool \<Rightarrow> db \<Rightarrow> error + db" where
  "set_consent v d = upsert_consent (if v then ''true'' else ''false'') d"

definition store_event_if_allowed :: "string \<Rightarrow> bool \<Rightarrow> int \<Rightarrow> db \<Rightarrow> error + db" where
  "store_event_if_allowed l allow now d =
     (if \<not> allow then Inr d
      else if \<not> (l = ''good'' \<or> l = ''slouched'') then Inr d
      else insert_event now l d)"

definition aggregate_summary :: "string \<Rightarrow> int \<Rightarrow> db \<Rightarrow> error + rat \<times> int" where
  "aggregate_summary period now d =
     (let since = (if period = ''weekly'' then now - 7 * 24 * 3600 else now - 24 * 3600)
      in case events d of
           None \<Rightarrow> Inl OperationalError
         | Some evs \<Rightarrow>
             (let counts = dict_of_rows (select_label_counts since evs);
                  total = sum_list (dict_values counts)
              in if total = 0 then Inr (0, 0)
                 else (case py_truediv (dict_get counts ''good'' 0) total of
                         Inl e \<Rightarrow> Inl e
                       | Inr upright_ratio \<Rightarrow> Inr (upright_ratio, total))))"

subsection \<open>The routes\<close>

record ConsentBody =
  consent :: bool

text \<open>\<^verbatim>\<open>TrackBody\<close>: the handler reads the label only; the optional confidence is carried
  along and never looked at.\<close>

record TrackBody =
  body_label :: string
  confidence :: "rat option"

text \<open>The JSON object \<^verbatim>\<open>{"uprightRatio": ..., "totalEvents": ...}\<close>.\<close>

record summary_json =
  uprightRatio :: rat
  totalEvents :: int

definition get_consent_route :: "db \<Rightarrow> error + bool" where
  "get_consent_route d = get_consent d"

definition set_consent_route :: "ConsentBody \<Rightarrow> db \<Rightarrow> error + bool \<times> db" where
  "set_consent_route body d =
     (case set_consent (consent body) d of
        Inl e \<Rightarrow> Inl e
      | Inr d' \<Rightarrow> (case get_consent d' of Inl e \<Rightarrow> Inl e | Inr c \<Rightarrow> Inr (c, d')))"

text \<open>\<^verbatim>\<open>track\<close> answers \<^verbatim>\<open>{"stored": b}\<close>; the model returns \<open>b\<close> and the state.\<close>

definition track :: "TrackBody \<Rightarrow> int \<Rightarrow> db \<Rightarrow> error + bool \<times> db" where
  "track body now d =
     (case get_consent d of
        Inl e \<Rightarrow> Inl e
      | Inr c \<Rightarrow>
          if \<not> c then Inr (False, d)
          else if \<not> (body_label body = ''good'' \<or> body_label body = ''slouched'')
          then Inr (False, d)
          else (case store_event_if_allowed (body_label body) True now d of
                  Inl e \<Rightarrow> Inl e
                | Inr d' \<Rightarrow> Inr (True, d')))"

text \<open>
  The query parameter \<^verbatim>\<open>period\<close> is declared with default \<^verbatim>\<open>"daily"\<close> and pattern
  \<^verbatim>\<open>^(daily|weekly)$\<close>; the framework checks it before the handler runs. \<open>None\<close> is a
  request without the parameter. The pattern is taken to match whole strings, its anchors
  being the two ends of the text; the framework is not part of the module.
\<close>

definition period_query :: "string option \<Rightarrow> error + string" where
  "period_query q =
     (case q of
        None \<Rightarrow> Inr ''daily''
      | Some p \<Rightarrow> if p = ''daily'' \<or> p = ''weekly'' then Inr p else Inl RequestValidationError)"

definition summary :: "string option \<Rightarrow> int \<Rightarrow> db \<Rightarrow> error + summary_json" where
  "summary q now d =
     (case period_query q of
        Inl e \<Rightarrow> Inl e
      | Inr period \<Rightarrow>
          (case get_consent d of
             Inl e \<Rightarrow> Inl e
           | Inr c \<Rightarrow>
               if \<not> c then Inr \<lparr>uprightRatio = 0, totalEvents = 0\<rparr>
               else (case aggregate_summary period now d of
                       Inl e \<Rightarrow> Inl e
                     | Inr (ratio, total') \<Rightarrow>
                         Inr \<lparr>uprightRatio = ratio, totalEvents = total'\<rparr>)))"

subsection \<open>The summary of the specification\<close>

text \<open>
  The specification's words for the summary of the events \<open>w\<close> of a window, to be compared
  with \<open>aggregate_summary\<close>: the ratio is the number of \<^verbatim>\<open>good\<close> events over the number of
  \<^verbatim>\<open>good\<close> and \<^verbatim>\<open>slouched\<close> events, the total is the number of \<^verbatim>\<open>good\<close> and
  \<^verbatim>\<open>slouched\<close> events, and both are zero when there is none.
\<close>

definition known_label_summary :: "event list \<Rightarrow> rat \<times> int" where
  "known_label_summary w =
     (let good = int (length (filter (\<lambda>e. label e = ''good'') w));
          slouched = int (length (filter (\<lambda>e. label e = ''slouched'') w));
          total_events = good + slouched
      in if total_events = 0 then (0, 0) else (of_int good / of_int total_events, total_events))"

section \<open>The query and the dictionary\<close>

text \<open>On rows with pairwise different keys the dictionary is the list of rows.\<close>

lemma update_fresh: "k \<notin> fst ` set al \<Longrightarrow> AList.update k v al = al @ [(k, v)]"
  by (induction al) auto

lemma fold_update_distinct:
  "distinct (map fst (acc @ rows)) \<Longrightarrow> fold (\<lambda>(k, v). AList.update k v) rows acc = acc @ rows"
proof (induction rows arbitrary: acc)
  case Nil
  then show ?case by simp
next
  case (Cons r rows)
  obtain k v where r: "r = (k, v)" by (cases r)
  from Cons.prems have fresh: "k \<notin> fst ` set acc" by (auto simp: r)
  from Cons.prems have "distinct (map fst ((acc @ [(k, v)]) @ rows))" by (auto simp: r)
  from Cons.IH [OF this] show ?case by (simp add: r update_fresh [OF fresh])
qed

lemma dict_of_rows_distinct: "distinct (map fst rows) \<Longrightarrow> dict_of_rows rows = rows"
  using fold_update_distinct [of "[]" rows] by (simp add: dict_of_rows_def)

lemma select_label_counts_keys:
  "map fst (select_label_counts since evs) =
     remdups (map label (filter (\<lambda>e. ts e \<ge> since) evs))"
  by (simp add: select_label_counts_def Let_def comp_def)

lemma select_label_counts_dict:
  "dict_of_rows (select_label_counts since evs) = select_label_counts since evs"
  by (rule dict_of_rows_distinct) (simp add: select_label_counts_keys)

text \<open>The groups partition the selected events.\<close>

lemma sum_counts_remdups:
  "sum_list (map (\<lambda>l. int (count_list ls l)) (remdups ls)) = int (length ls)"
proof -
  have "sum_list (map (\<lambda>l. int (count_list ls l)) (remdups ls))
      = (\<Sum>l\<in>set ls. int (count_list ls l))"
    by (simp add: sum_list_distinct_conv_sum_set)
  also have "\<dots> = int (\<Sum>l\<in>set ls. count_list ls l)" by simp
  also have "\<dots> = int (length ls)" by (simp add: sum_count_set)
  finally show ?thesis .
qed

lemma select_label_counts_total:
  "sum_list (dict_values (select_label_counts since evs)) =
     int (length (filter (\<lambda>e. ts e \<ge> since) evs))"
  by (simp add: select_label_counts_def Let_def dict_values_def comp_def sum_counts_remdups)

lemma count_list_map_filter: "count_list (map f xs) y = length (filter (\<lambda>x. f x = y) xs)"
  by (induction xs) auto

lemma map_of_counts:
  "map_of (map (\<lambda>l. (l, int (count_list ls l))) (remdups ls)) k =
     (if k \<in> set ls then Some (int (count_list ls k)) else None)"
  by (simp add: map_of_map_restrict restrict_map_def)

lemma dict_get_counts:
  "dict_get (map (\<lambda>l. (l, int (count_list ls l))) (remdups ls)) k 0 = int (count_list ls k)"
  by (simp add: dict_get_def map_of_counts)

lemma select_label_counts_get:
  "dict_get (select_label_counts since evs) k 0 =
     int (length (filter (\<lambda>e. label e = k) (filter (\<lambda>e. ts e \<ge> since) evs)))"
proof -
  let ?ls = "map label (filter (\<lambda>e. ts e \<ge> since) evs)"
  have "dict_get (select_label_counts since evs) k 0 = int (count_list ?ls k)"
    unfolding select_label_counts_def Let_def by (rule dict_get_counts)
  then show ?thesis by (simp only: count_list_map_filter)
qed

text \<open>What \<open>aggregate_summary\<close> returns, in terms of the stored events.\<close>

lemma aggregate_summary_eq:
  assumes "events d = Some evs"
  shows "aggregate_summary period now d =
     (let w = filter (\<lambda>e. ts e \<ge> (if period = ''weekly'' then now - 604800 else now - 86400)) evs
      in if w = [] then Inr (0, 0)
         else Inr (of_int (int (length (filter (\<lambda>e. label e = ''good'') w))) / of_int (int (length w)),
                   int (length w)))"
  using assms
  by (simp add: aggregate_summary_def Let_def select_label_counts_dict select_label_counts_total
      select_label_counts_get py_truediv_def)

lemma aggregate_summary_no_table:
  "events d = None \<Longrightarrow> aggregate_summary period now d = Inl OperationalError"
  by (simp add: aggregate_summary_def)

lemma get_consent_cases:
  "get_consent d =
     (case settings d of
        None \<Rightarrow> Inl OperationalError
      | Some m \<Rightarrow> Inr (m ''consent'' = Some ''true''))"
  by (auto simp: get_consent_def select_consent_def split: option.splits)

section \<open>Consent\<close>

text \<open>
  C9. When the settings table has no row with key \<^verbatim>\<open>consent\<close>, \<open>get_consent\<close> returns
  false.
\<close>

theorem get_consent_absent_key:
  assumes "settings d = Some m" and "m ''consent'' = None"
  shows "get_consent d = Inr False"
  using assms by (simp add: get_consent_def select_consent_def)

theorem get_consent_absent_key_witness:
  "settings \<lparr>events = Some [], settings = Some Map.empty\<rparr> = Some Map.empty
   \<and> (Map.empty :: string \<rightharpoonup> string) ''consent'' = None
   \<and> get_consent \<lparr>events = Some [], settings = Some Map.empty\<rparr> = Inr False"
  using get_consent_absent_key [of "\<lparr>events = Some [], settings = Some Map.empty\<rparr>" Map.empty]
  by simp

text \<open>
  C4. For each boolean \<open>v\<close> and each state of the settings table, with or without a row for
  \<^verbatim>\<open>consent\<close>, \<open>set_consent v\<close> succeeds and \<open>get_consent\<close> then returns \<open>v\<close>; the row is
  inserted or overwritten, the other rows and the event log stay as they are, and the route
  answers with \<open>v\<close>.
\<close>

theorem set_get_consent_roundtrip:
  assumes "settings d = Some m"
  shows "\<exists>d'. set_consent v d = Inr d'
           \<and> get_consent d' = Inr v
           \<and> settings d' = Some (m(''consent'' \<mapsto> (if v then ''true'' else ''false'')))
           \<and> events d' = events d
           \<and> set_consent_route \<lparr>consent = v\<rparr> d = Inr (v, d')"
  using assms
  by (simp add: set_consent_def upsert_consent_def set_consent_route_def get_consent_cases)

theorem set_get_consent_roundtrip_witness:
  "settings \<lparr>events = Some [], settings = Some Map.empty\<rparr> = Some Map.empty
   \<and> (\<exists>d'. set_consent True \<lparr>events = Some [], settings = Some Map.empty\<rparr> = Inr d'
           \<and> get_consent d' = Inr True)
   \<and> settings \<lparr>events = Some [], settings = Some [''consent'' \<mapsto> ''true'']\<rparr>
       = Some [''consent'' \<mapsto> ''true'']
   \<and> (\<exists>d'. set_consent False \<lparr>events = Some [], settings = Some [''consent'' \<mapsto> ''true'']\<rparr>
             = Inr d'
           \<and> get_consent d' = Inr False)"
  using set_get_consent_roundtrip
          [of "\<lparr>events = Some [], settings = Some Map.empty\<rparr>" Map.empty True]
        set_get_consent_roundtrip
          [of "\<lparr>events = Some [], settings = Some [''consent'' \<mapsto> ''true'']\<rparr>"
              "[''consent'' \<mapsto> ''true'']" False]
  by auto

text \<open>
  C3. \<open>init_db\<close> always succeeds. A \<^verbatim>\<open>consent\<close> row that is there, whatever its value \<open>v\<close>,
  is left as it is, with the whole settings table; when the row or the table is missing,
  the row is created with value \<^verbatim>\<open>false\<close>. Running \<open>init_db\<close> on its own result changes
  nothing.
\<close>

theorem init_db_keeps_consent:
  "(settings d = Some m \<and> m ''consent'' = Some v \<longrightarrow>
      (\<exists>d'. init_db d = Inr d' \<and> settings d' = Some m \<and> get_consent d' = get_consent d))
   \<and> (settings d = Some m \<and> m ''consent'' = None \<longrightarrow>
      (\<exists>d'. init_db d = Inr d' \<and> settings d' = Some (m(''consent'' \<mapsto> ''false''))))
   \<and> (settings d = None \<longrightarrow>
      (\<exists>d'. init_db d = Inr d' \<and> settings d' = Some [''consent'' \<mapsto> ''false'']))
   \<and> (\<exists>d'. init_db d = Inr d' \<and> init_db d' = Inr d'
           \<and> events d' = Some (case events d of None \<Rightarrow> [] | Some evs \<Rightarrow> evs))"
  by (auto simp: init_db_def insert_or_ignore_consent_def create_settings_if_not_exists_def
      create_events_if_not_exists_def get_consent_cases split: option.splits)

theorem init_db_keeps_consent_witness:
  "(\<exists>d'. init_db \<lparr>events = Some [], settings = Some [''consent'' \<mapsto> ''true'']\<rparr> = Inr d'
         \<and> settings d' = Some [''consent'' \<mapsto> ''true'']
         \<and> get_consent d' = Inr True)
   \<and> (\<exists>d'. init_db \<lparr>events = None, settings = None\<rparr> = Inr d'
         \<and> settings d' = Some [''consent'' \<mapsto> ''false''])"
  using init_db_keeps_consent
          [of "\<lparr>events = Some [], settings = Some [''consent'' \<mapsto> ''true'']\<rparr>"
              "[''consent'' \<mapsto> ''true'']" "''true''"]
        init_db_keeps_consent [of "\<lparr>events = None, settings = None\<rparr>" Map.empty "''true''"]
  by (simp add: get_consent_cases)

section \<open>Tracking\<close>

text \<open>
  C5. While the stored consent flag is false (the row says something other than
  \<^verbatim>\<open>true\<close>, or is missing), a \<^verbatim>\<open>track\<close> request with any label, valid or not, answers
  \<^verbatim>\<open>{"stored": false}\<close>, raises nothing and leaves the database as it is.
\<close>

theorem track_without_consent:
  assumes "get_consent d = Inr False"
  shows "track body now d = Inr (False, d)"
  using assms by (simp add: track_def)

theorem track_without_consent_witness:
  "get_consent \<lparr>events = Some [], settings = Some [''consent'' \<mapsto> ''false'']\<rparr> = Inr False
   \<and> track \<lparr>body_label = ''good'', confidence = None\<rparr> 1700000000
        \<lparr>events = Some [], settings = Some [''consent'' \<mapsto> ''false'']\<rparr>
     = Inr (False, \<lparr>events = Some [], settings = Some [''consent'' \<mapsto> ''false'']\<rparr>)"
  using track_without_consent
          [of "\<lparr>events = Some [], settings = Some [''consent'' \<mapsto> ''false'']\<rparr>"
              "\<lparr>body_label = ''good'', confidence = None\<rparr>" 1700000000]
  by (simp add: get_consent_cases)

text \<open>
  C6. Whatever the consent flag says, a \<^verbatim>\<open>track\<close> request whose label is neither
  \<^verbatim>\<open>good\<close> nor \<^verbatim>\<open>slouched\<close> answers \<^verbatim>\<open>{"stored": false}\<close> and leaves the database, and
  so every later summary, as it is; \<open>store_event_if_allowed\<close> does not write such a label
  either, allowed or not.
\<close>

theorem track_invalid_label:
  assumes "get_consent d = Inr c"
    and "body_label body \<noteq> ''good''" and "body_label body \<noteq> ''slouched''"
  shows "track body now d = Inr (False, d)
         \<and> store_event_if_allowed (body_label body) allow now d = Inr d"
  using assms by (simp add: track_def store_event_if_allowed_def)

theorem track_invalid_label_witness:
  "get_consent \<lparr>events = Some [], settings = Some [''consent'' \<mapsto> ''true'']\<rparr> = Inr True
   \<and> ''sitting'' \<noteq> ''good'' \<and> ''sitting'' \<noteq> ''slouched''
   \<and> track \<lparr>body_label = ''sitting'', confidence = None\<rparr> 1700000000
        \<lparr>events = Some [], settings = Some [''consent'' \<mapsto> ''true'']\<rparr>
     = Inr (False, \<lparr>events = Some [], settings = Some [''consent'' \<mapsto> ''true'']\<rparr>)"
  using track_invalid_label
          [of "\<lparr>events = Some [], settings = Some [''consent'' \<mapsto> ''true'']\<rparr>" True
              "\<lparr>body_label = ''sitting'', confidence = None\<rparr>" 1700000000 True]
  by (simp add: get_consent_cases)

text \<open>The identifier SQLite picks is not in use.\<close>

lemma next_rowid_fresh: "next_rowid evs \<notin> rowid ` set evs"
proof
  assume "next_rowid evs \<in> rowid ` set evs"
  then have ne: "evs \<noteq> []" and "Max (set (map rowid evs)) + 1 \<in> set (map rowid evs)"
    by (auto simp: next_rowid_def split: if_splits)
  then have "Max (set (map rowid evs)) + 1 \<le> Max (set (map rowid evs))"
    by (intro Max_ge) auto
  then show False by simp
qed

text \<open>
  C7. While the stored consent flag is true, a \<^verbatim>\<open>track\<close> request with label \<^verbatim>\<open>good\<close>
  or \<^verbatim>\<open>slouched\<close> answers \<^verbatim>\<open>{"stored": true}\<close> and appends one row to the event log: its
  timestamp is the time of the insertion, its label the given one, its identifier one that
  no stored row has. The rows that were there and the settings table are unchanged.
\<close>

theorem track_stores_one_event:
  assumes "get_consent d = Inr True" and "events d = Some evs"
    and "body_label body = ''good'' \<or> body_label body = ''slouched''"
  shows "track body now d =
           Inr (True, d\<lparr>events :=
             Some (evs @ [\<lparr>rowid = next_rowid evs, ts = now, label = body_label body\<rparr>])\<rparr>)
         \<and> next_rowid evs \<notin> rowid ` set evs"
  using assms
  by (auto simp: track_def store_event_if_allowed_def insert_event_def next_rowid_fresh)

theorem track_stores_one_event_witness:
  "get_consent \<lparr>events = Some [\<lparr>rowid = 1, ts = 1699999000, label = ''slouched''\<rparr>],
                settings = Some [''consent'' \<mapsto> ''true'']\<rparr> = Inr True
   \<and> track \<lparr>body_label = ''good'', confidence = Some (9 / 10)\<rparr> 1700000000
        \<lparr>events = Some [\<lparr>rowid = 1, ts = 1699999000, label = ''slouched''\<rparr>],
         settings = Some [''consent'' \<mapsto> ''true'']\<rparr>
     = Inr (True,
        \<lparr>events = Some [\<lparr>rowid = 1, ts = 1699999000, label = ''slouched''\<rparr>,
                        \<lparr>rowid = 2, ts = 1700000000, label = ''good''\<rparr>],
         settings = Some [''consent'' \<mapsto> ''true'']\<rparr>)"
  using track_stores_one_event
          [of "\<lparr>events = Some [\<lparr>rowid = 1, ts = 1699999000, label = ''slouched''\<rparr>],
                settings = Some [''consent'' \<mapsto> ''true'']\<rparr>"
              "[\<lparr>rowid = 1, ts = 1699999000, label = ''slouched''\<rparr>]"
              "\<lparr>body_label = ''good'', confidence = Some (9 / 10)\<rparr>" 1700000000]
  by (simp add: get_consent_cases next_rowid_def)

section \<open>Summary\<close>

text \<open>
  C8. A \<^verbatim>\<open>summary\<close> request whose period passes validation answers exactly
  \<^verbatim>\<open>{"uprightRatio": 0.0, "totalEvents": 0}\<close> when the consent flag is false, and also when
  the flag is true and no stored event has a timestamp that qualifies for the window
  (\<^verbatim>\<open>ts >= since\<close>). In no state does \<open>summary\<close> or \<open>aggregate_summary\<close> raise a division by
  zero: the division is reached with a non-zero total only.
\<close>

theorem summary_zero_guard:
  "(period_query q = Inr period \<and> get_consent d = Inr False \<longrightarrow>
      summary q now d = Inr \<lparr>uprightRatio = 0, totalEvents = 0\<rparr>)
   \<and> (period_query q = Inr period \<and> get_consent d = Inr True \<and> events d = Some evs
        \<and> filter (\<lambda>e. ts e \<ge> (if period = ''weekly'' then now - 7 * 24 * 3600
                                 else now - 24 * 3600)) evs = [] \<longrightarrow>
      summary q now d = Inr \<lparr>uprightRatio = 0, totalEvents = 0\<rparr>
      \<and> aggregate_summary period now d = Inr (0, 0))
   \<and> summary q now d \<noteq> Inl ZeroDivisionError
   \<and> aggregate_summary period now d \<noteq> Inl ZeroDivisionError"
proof -
  have agg: "aggregate_summary p now d \<noteq> Inl ZeroDivisionError" for p
  proof (cases "events d")
    case None
    then show ?thesis by (simp add: aggregate_summary_no_table)
  next
    case (Some evs')
    then show ?thesis by (simp add: aggregate_summary_eq Let_def)
  qed
  have "summary q now d \<noteq> Inl ZeroDivisionError"
    using agg by (auto simp: summary_def period_query_def get_consent_cases
        split: option.splits sum.splits if_splits)
  moreover have "summary q now d = Inr \<lparr>uprightRatio = 0, totalEvents = 0\<rparr>"
    if "period_query q = Inr period" "get_consent d = Inr False"
    using that by (simp add: summary_def)
  moreover have "summary q now d = Inr \<lparr>uprightRatio = 0, totalEvents = 0\<rparr>
      \<and> aggregate_summary period now d = Inr (0, 0)"
    if "period_query q = Inr period" "get_consent d = Inr True" "events d = Some evs"
      "filter (\<lambda>e. ts e \<ge> (if period = ''weekly'' then now - 7 * 24 * 3600
                              else now - 24 * 3600)) evs = []"
    using that
    by (cases "period = ''weekly''") (simp_all add: summary_def aggregate_summary_eq Let_def)
  ultimately show ?thesis using agg by blast
qed

theorem summary_zero_guard_witness:
  "summary None 1700000000
      \<lparr>events = Some [\<lparr>rowid = 1, ts = 1699999000, label = ''good''\<rparr>],
       settings = Some [''consent'' \<mapsto> ''false'']\<rparr>
     = Inr \<lparr>uprightRatio = 0, totalEvents = 0\<rparr>
   \<and> summary (Some ''daily'') 1700000000
      \<lparr>events = Some [\<lparr>rowid = 1, ts = 1699913599, label = ''good''\<rparr>],
       settings = Some [''consent'' \<mapsto> ''true'']\<rparr>
     = Inr \<lparr>uprightRatio = 0, totalEvents = 0\<rparr>"
  using summary_zero_guard
          [of None "''daily''"
              "\<lparr>events = Some [\<lparr>rowid = 1, ts = 1699999000, label = ''good''\<rparr>],
                settings = Some [''consent'' \<mapsto> ''false'']\<rparr>" 1700000000 "[]"]
        summary_zero_guard
          [of "Some ''daily''" "''daily''"
              "\<lparr>events = Some [\<lparr>rowid = 1, ts = 1699913599, label = ''good''\<rparr>],
                settings = Some [''consent'' \<mapsto> ''true'']\<rparr>" 1700000000
              "[\<lparr>rowid = 1, ts = 1699913599, label = ''good''\<rparr>]"]
  by (simp add: period_query_def get_consent_cases)

text \<open>
  C2. With period \<^verbatim>\<open>daily\<close> the summary counts the stored events whose timestamp is at
  least \<open>now - 86400\<close>, all of them and no others, and with period \<^verbatim>\<open>weekly\<close> those whose
  timestamp is at least \<open>now - 7 * 24 * 3600\<close>: the total is their number and the ratio is
  taken among them. An event at exactly \<open>now - 86400\<close> is counted, one at \<open>now - 86401\<close>
  is not.
\<close>

theorem summary_window:
  assumes "events d = Some evs"
  shows "aggregate_summary ''daily'' now d =
           (let w = filter (\<lambda>e. ts e \<ge> now - 86400) evs
            in Inr (if w = [] then 0
                    else of_int (int (length (filter (\<lambda>e. label e = ''good'') w)))
                         / of_int (int (length w)),
                    int (length w)))
       \<and> aggregate_summary ''weekly'' now d =
           (let w = filter (\<lambda>e. ts e \<ge> now - 7 * 24 * 3600) evs
            in Inr (if w = [] then 0
                    else of_int (int (length (filter (\<lambda>e. label e = ''good'') w)))
                         / of_int (int (length w)),
                    int (length w)))
       \<and> (get_consent d = Inr True \<longrightarrow>
            (\<exists>r. summary (Some ''daily'') now d =
                   Inr \<lparr>uprightRatio = r,
                        totalEvents = int (length (filter (\<lambda>e. ts e \<ge> now - 86400) evs))\<rparr>)
            \<and> (\<exists>r. summary (Some ''weekly'') now d =
                   Inr \<lparr>uprightRatio = r,
                        totalEvents =
                          int (length (filter (\<lambda>e. ts e \<ge> now - 7 * 24 * 3600) evs))\<rparr>))
       \<and> aggregate_summary ''daily'' now
            \<lparr>events = Some [\<lparr>rowid = i, ts = now - 86400, label = l\<rparr>], settings = s\<rparr>
           = Inr (if l = ''good'' then 1 else 0, 1)
       \<and> aggregate_summary ''daily'' now
            \<lparr>events = Some [\<lparr>rowid = i, ts = now - 86401, label = l\<rparr>], settings = s\<rparr>
           = Inr (0, 0)"
proof -
  have daily: "aggregate_summary ''daily'' now d =
           (let w = filter (\<lambda>e. ts e \<ge> now - 86400) evs
            in Inr (if w = [] then 0
                    else of_int (int (length (filter (\<lambda>e. label e = ''good'') w)))
                         / of_int (int (length w)),
                    int (length w)))"
    using assms by (simp add: aggregate_summary_eq Let_def)
  have weekly: "aggregate_summary ''weekly'' now d =
           (let w = filter (\<lambda>e. ts e \<ge> now - 7 * 24 * 3600) evs
            in Inr (if w = [] then 0
                    else of_int (int (length (filter (\<lambda>e. label e = ''good'') w)))
                         / of_int (int (length w)),
                    int (length w)))"
    using assms by (simp add: aggregate_summary_eq Let_def)
  have route: "(\<exists>r. summary (Some ''daily'') now d =
                   Inr \<lparr>uprightRatio = r,
                        totalEvents = int (length (filter (\<lambda>e. ts e \<ge> now - 86400) evs))\<rparr>)
            \<and> (\<exists>r. summary (Some ''weekly'') now d =
                   Inr \<lparr>uprightRatio = r,
                        totalEvents =
                          int (length (filter (\<lambda>e. ts e \<ge> now - 7 * 24 * 3600) evs))\<rparr>)"
    if "get_consent d = Inr True"
    using that by (simp add: summary_def period_query_def daily weekly Let_def)
  have inside: "aggregate_summary ''daily'' now
            \<lparr>events = Some [\<lparr>rowid = i, ts = now - 86400, label = l\<rparr>], settings = s\<rparr>
           = Inr (if l = ''good'' then 1 else 0, 1)"
    by (simp add: aggregate_summary_eq Let_def)
  have outside: "aggregate_summary ''daily'' now
            \<lparr>events = Some [\<lparr>rowid = i, ts = now - 86401, label = l\<rparr>], settings = s\<rparr>
           = Inr (0, 0)"
    by (simp add: aggregate_summary_eq Let_def)
  from daily weekly route inside outside show ?thesis by blast
qed

theorem summary_window_witness:
  "aggregate_summary ''daily'' 1700000000
      \<lparr>events = Some [\<lparr>rowid = 1, ts = 1699395199, label = ''good''\<rparr>,
                      \<lparr>rowid = 2, ts = 1699395200, label = ''good''\<rparr>,
                      \<lparr>rowid = 3, ts = 1699913599, label = ''slouched''\<rparr>,
                      \<lparr>rowid = 4, ts = 1699913600, label = ''good''\<rparr>],
       settings = Some [''consent'' \<mapsto> ''true'']\<rparr>
     = Inr (1, 1)
   \<and> aggregate_summary ''weekly'' 1700000000
      \<lparr>events = Some [\<lparr>rowid = 1, ts = 1699395199, label = ''good''\<rparr>,
                      \<lparr>rowid = 2, ts = 1699395200, label = ''good''\<rparr>,
                      \<lparr>rowid = 3, ts = 1699913599, label = ''slouched''\<rparr>,
                      \<lparr>rowid = 4, ts = 1699913600, label = ''good''\<rparr>],
       settings = Some [''consent'' \<mapsto> ''true'']\<rparr>
     = Inr (2 / 3, 3)"
  using summary_window
          [of "\<lparr>events = Some [\<lparr>rowid = 1, ts = 1699395199, label = ''good''\<rparr>,
                      \<lparr>rowid = 2, ts = 1699395200, label = ''good''\<rparr>,
                      \<lparr>rowid = 3, ts = 1699913599, label = ''slouched''\<rparr>,
                      \<lparr>rowid = 4, ts = 1699913600, label = ''good''\<rparr>],
                settings = Some [''consent'' \<mapsto> ''true'']\<rparr>"
              "[\<lparr>rowid = 1, ts = 1699395199, label = ''good''\<rparr>,
                \<lparr>rowid = 2, ts = 1699395200, label = ''good''\<rparr>,
                \<lparr>rowid = 3, ts = 1699913599, label = ''slouched''\<rparr>,
                \<lparr>rowid = 4, ts = 1699913600, label = ''good''\<rparr>]"
              1700000000]
  by simp

text \<open>
  C10. \<open>aggregate_summary\<close> takes every period string: any string other than
  \<^verbatim>\<open>weekly\<close>, not \<^verbatim>\<open>daily\<close> alone, gives what \<^verbatim>\<open>daily\<close> gives, the window from
  \<open>now - 24 * 3600\<close>, and \<^verbatim>\<open>weekly\<close> alone gives the window from \<open>now - 7 * 24 * 3600\<close>. A
  string other than the two is turned away by the validation of the query parameter, before
  the handler of \<^verbatim>\<open>/api/summary\<close> runs.
\<close>

theorem period_other_than_weekly_is_daily:
  assumes "events d = Some evs" and "period \<noteq> ''weekly''"
  shows "aggregate_summary period now d = aggregate_summary ''daily'' now d
       \<and> (\<exists>r. aggregate_summary period now d =
                 Inr (r, int (length (filter (\<lambda>e. ts e \<ge> now - 24 * 3600) evs))))
       \<and> (\<exists>r. aggregate_summary ''weekly'' now d =
                 Inr (r, int (length (filter (\<lambda>e. ts e \<ge> now - 7 * 24 * 3600) evs))))
       \<and> (period \<noteq> ''daily'' \<longrightarrow> summary (Some period) now d = Inl RequestValidationError)"
  using assms by (simp add: aggregate_summary_eq Let_def summary_def period_query_def)

theorem period_other_than_weekly_is_daily_witness:
  "''monthly'' \<noteq> ''weekly''
   \<and> aggregate_summary ''monthly'' 1700000000
       \<lparr>events = Some [\<lparr>rowid = 1, ts = 1699900000, label = ''good''\<rparr>],
        settings = Some [''consent'' \<mapsto> ''true'']\<rparr>
     = aggregate_summary ''daily'' 1700000000
       \<lparr>events = Some [\<lparr>rowid = 1, ts = 1699900000, label = ''good''\<rparr>],
        settings = Some [''consent'' \<mapsto> ''true'']\<rparr>
   \<and> aggregate_summary ''monthly'' 1700000000
       \<lparr>events = Some [\<lparr>rowid = 1, ts = 1699900000, label = ''good''\<rparr>],
        settings = Some [''consent'' \<mapsto> ''true'']\<rparr>
     = Inr (0, 0)
   \<and> aggregate_summary ''weekly'' 1700000000
       \<lparr>events = Some [\<lparr>rowid = 1, ts = 1699900000, label = ''good''\<rparr>],
        settings = Some [''consent'' \<mapsto> ''true'']\<rparr>
     = Inr (1, 1)
   \<and> summary (Some ''monthly'') 1700000000
       \<lparr>events = Some [\<lparr>rowid = 1, ts = 1699900000, label = ''good''\<rparr>],
        settings = Some [''consent'' \<mapsto> ''true'']\<rparr>
     = Inl RequestValidationError"
  using period_other_than_weekly_is_daily
          [of "\<lparr>events = Some [\<lparr>rowid = 1, ts = 1699900000, label = ''good''\<rparr>],
                settings = Some [''consent'' \<mapsto> ''true'']\<rparr>"
              "[\<lparr>rowid = 1, ts = 1699900000, label = ''good''\<rparr>]"
              "''monthly''" 1700000000]
  by (simp add: aggregate_summary_eq Let_def)

section \<open>Labels outside the vocabulary\<close>

text \<open>
  The service never writes a label other than \<^verbatim>\<open>good\<close> and \<^verbatim>\<open>slouched\<close>: the handler
  checks the label and the table's constraint checks it again.
\<close>

lemma insert_event_known_label:
  "insert_event t l d = Inr d' \<Longrightarrow> l = ''good'' \<or> l = ''slouched''"
  by (auto simp: insert_event_def split: option.splits if_splits)

lemma track_keeps_known_labels:
  assumes "track body now d = Inr (b, d')" and "events d = Some evs"
    and "\<forall>e\<in>set evs. label e = ''good'' \<or> label e = ''slouched''"
  shows "\<exists>evs'. events d' = Some evs'
           \<and> (\<forall>e\<in>set evs'. label e = ''good'' \<or> label e = ''slouched'')"
  using assms
  by (auto simp: track_def store_event_if_allowed_def insert_event_def
      split: sum.splits if_splits)

lemma known_labels_length:
  "\<forall>e\<in>set w. label e = ''good'' \<or> label e = ''slouched'' \<Longrightarrow>
     length w = length (filter (\<lambda>e. label e = ''good'') w)
              + length (filter (\<lambda>e. label e = ''slouched'') w)"
  by (induction w) auto

text \<open>
  C1, as the specification has it, fails: a stored event with another label is counted in
  the total and in the denominator. With one \<^verbatim>\<open>good\<close> and one \<^verbatim>\<open>sitting\<close> event in the
  window the code answers ratio 1/2 and total 2, where the two known labels alone give
  ratio 1 and total 1.
\<close>

theorem foreign_label_counterexample:
  "aggregate_summary ''daily'' 1700000000
      \<lparr>events = Some [\<lparr>rowid = 1, ts = 1699999970, label = ''good''\<rparr>,
                      \<lparr>rowid = 2, ts = 1699999980, label = ''sitting''\<rparr>],
       settings = Some [''consent'' \<mapsto> ''true'']\<rparr>
     = Inr (1 / 2, 2)
   \<and> known_label_summary [\<lparr>rowid = 1, ts = 1699999970, label = ''good''\<rparr>,
                           \<lparr>rowid = 2, ts = 1699999980, label = ''sitting''\<rparr>]
     = (1, 1)
   \<and> summary (Some ''daily'') 1700000000
      \<lparr>events = Some [\<lparr>rowid = 1, ts = 1699999970, label = ''good''\<rparr>,
                      \<lparr>rowid = 2, ts = 1699999980, label = ''sitting''\<rparr>],
       settings = Some [''consent'' \<mapsto> ''true'']\<rparr>
     = Inr \<lparr>uprightRatio = 1 / 2, totalEvents = 2\<rparr>"
  by (simp add: aggregate_summary_def select_label_counts_def dict_of_rows_def dict_values_def
      dict_get_def py_truediv_def known_label_summary_def summary_def period_query_def
      get_consent_def select_consent_def Let_def)

text \<open>
  C1, amended. The total of \<open>aggregate_summary\<close> is the number of all stored events in the
  window, whatever their label, and the ratio is the number of \<^verbatim>\<open>good\<close> events in the
  window over that total (both zero for an empty window): an event with another label never
  counts in the numerator. When every event in the window is \<^verbatim>\<open>good\<close> or \<^verbatim>\<open>slouched\<close>,
  as the table's constraint and the handler make sure for every row the service writes, the
  result is the ratio and the total of the two known labels.
\<close>

theorem aggregate_summary_counts_every_label:
  assumes "events d = Some evs"
    and "w = filter (\<lambda>e. ts e \<ge> (if period = ''weekly'' then now - 7 * 24 * 3600
                                  else now - 24 * 3600)) evs"
  shows "aggregate_summary period now d =
           Inr (if w = [] then 0
                else of_int (int (length (filter (\<lambda>e. label e = ''good'') w)))
                     / of_int (int (length w)),
                int (length w))
       \<and> ((\<forall>e\<in>set w. label e = ''good'' \<or> label e = ''slouched'') \<longrightarrow>
            aggregate_summary period now d = Inr (known_label_summary w))"
proof -
  have w: "w = filter (\<lambda>e. ts e \<ge> (if period = ''weekly'' then now - 604800
                                    else now - 86400)) evs"
    using assms(2) by simp
  have code: "aggregate_summary period now d =
           Inr (if w = [] then 0
                else of_int (int (length (filter (\<lambda>e. label e = ''good'') w)))
                     / of_int (int (length w)),
                int (length w))"
    unfolding w using assms(1) by (simp add: aggregate_summary_eq Let_def)
  have "aggregate_summary period now d = Inr (known_label_summary w)"
    if known: "\<forall>e\<in>set w. label e = ''good'' \<or> label e = ''slouched''"
  proof -
    have len: "int (length w) = int (length (filter (\<lambda>e. label e = ''good'') w))
                              + int (length (filter (\<lambda>e. label e = ''slouched'') w))"
      using known_labels_length [OF known] by simp
    show ?thesis
    proof (cases "w = []")
      case True
      then show ?thesis by (simp add: code known_label_summary_def)
    next
      case False
      then have "int (length w) \<noteq> 0" by simp
      then show ?thesis
        using False by (simp add: code known_label_summary_def Let_def len [symmetric])
    qed
  qed
  with code show ?thesis by blast
qed

theorem aggregate_summary_counts_every_label_witness:
  "aggregate_summary ''daily'' 1700000000
      \<lparr>events = Some [\<lparr>rowid = 1, ts = 1699999950, label = ''good''\<rparr>,
                      \<lparr>rowid = 2, ts = 1699999960, label = ''good''\<rparr>,
                      \<lparr>rowid = 3, ts = 1699999970, label = ''good''\<rparr>,
                      \<lparr>rowid = 4, ts = 1699999980, label = ''slouched''\<rparr>],
       settings = Some [''consent'' \<mapsto> ''true'']\<rparr>
     = Inr (3 / 4, 4)
   \<and> known_label_summary [\<lparr>rowid = 1, ts = 1699999950, label = ''good''\<rparr>,
                           \<lparr>rowid = 2, ts = 1699999960, label = ''good''\<rparr>,
                           \<lparr>rowid = 3, ts = 1699999970, label = ''good''\<rparr>,
                           \<lparr>rowid = 4, ts = 1699999980, label = ''slouched''\<rparr>]
     = (3 / 4, 4)"
  using aggregate_summary_counts_every_label
          [of "\<lparr>events = Some [\<lparr>rowid = 1, ts = 1699999950, label = ''good''\<rparr>,
                      \<lparr>rowid = 2, ts = 1699999960, label = ''good''\<rparr>,
                      \<lparr>rowid = 3, ts = 1699999970, label = ''good''\<rparr>,
                      \<lparr>rowid = 4, ts = 1699999980, label = ''slouched''\<rparr>],
                settings = Some [''consent'' \<mapsto> ''true'']\<rparr>"
              "[\<lparr>rowid = 1, ts = 1699999950, label = ''good''\<rparr>,
                \<lparr>rowid = 2, ts = 1699999960, label = ''good''\<rparr>,
                \<lparr>rowid = 3, ts = 1699999970, label = ''good''\<rparr>,
                \<lparr>rowid = 4, ts = 1699999980, label = ''slouched''\<rparr>]"
              "[\<lparr>rowid = 1, ts = 1699999950, label = ''good''\<rparr>,
                \<lparr>rowid = 2, ts = 1699999960, label = ''good''\<rparr>,
                \<lparr>rowid = 3, ts = 1699999970, label = ''good''\<rparr>,
                \<lparr>rowid = 4, ts = 1699999980, label = ''slouched''\<rparr>]"
              "''daily''" 1700000000]
  by (simp add: known_label_summary_def)

end
